theory Spec2Isabelle
  imports Main "HOL-Library.Sublist"
begin

section \<open>The inventory collaborator\<close>

text \<open>
  The program is a Pulumi deployment script. Its only logic is the discovery of the
  public subnets of the default VPC, which queries the cloud inventory through
  \<^verbatim>\<open>aws.ec2.getSubnets\<close> and \<^verbatim>\<open>aws.ec2.getRouteTable\<close>. Both calls belong to the
  provider library, so the inventory is a parameter of the model: a snapshot that answers
  each query either with a value or with a thrown value.
\<close>

text \<open>A query filter, \<^verbatim>\<open>{ name: ..., values: [...] }\<close> (\<open>values\<close> is a keyword of the
  prover, hence the prefixed field names).\<close>

record inventoryFilter =
  filter_name :: string
  filter_values :: "string list"

text \<open>A route of a route table. The script reads \<^verbatim>\<open>gatewayId\<close> only, through
  \<^verbatim>\<open>route.gatewayId?.startsWith\<close>, so the field may be absent.\<close>

record route =
  cidrBlock :: string
  gatewayId :: "string option"

record routeTable =
  routeTableId :: string
  routes :: "route list"

text \<open>The result of \<^verbatim>\<open>getSubnets\<close>; the script reads its \<^verbatim>\<open>ids\<close>.\<close>

record getSubnetsResult =
  ids :: "string list"

text \<open>
  A thrown value. The handler is typed \<^verbatim>\<open>catch (error: unknown)\<close>: a thrown value is
  either an instance of \<^verbatim>\<open>Error\<close>, which carries a message, or any other value, kept
  here with its text.
\<close>

datatype thrown = ErrorInstance string | NonError string

record inventory =
  getSubnets :: "inventoryFilter list \<Rightarrow> thrown + getSubnetsResult"
  getRouteTable :: "inventoryFilter list \<Rightarrow> thrown + routeTable"

text \<open>
  The queries are the only effects of the script. Each function below takes the list of
  the queries made so far and returns it extended, so that which lookups a run performs
  is part of its outcome.
\<close>

datatype call = GetSubnets "inventoryFilter list" | GetRouteTable "inventoryFilter list"

definition awsGetSubnets ::
  "inventory \<Rightarrow> inventoryFilter list \<Rightarrow> call list \<Rightarrow> (thrown + getSubnetsResult) \<times> call list" where
  "awsGetSubnets aws filters calls = (getSubnets aws filters, calls @ [GetSubnets filters])"

definition awsGetRouteTable ::
  "inventory \<Rightarrow> inventoryFilter list \<Rightarrow> call list \<Rightarrow> (thrown + routeTable) \<times> call list" where
  "awsGetRouteTable aws filters calls = (getRouteTable aws filters, calls @ [GetRouteTable filters])"

section \<open>String and array primitives\<close>

text \<open>\<^verbatim>\<open>String.prototype.startsWith\<close> at position 0.\<close>

definition startsWith :: "string \<Rightarrow> string \<Rightarrow> bool" where
  "startsWith s p = (take (length p) s = p)"

text \<open>\<^verbatim>\<open>String.prototype.includes\<close>: the marker occurs at some position of the
  string.\<close>

fun string_includes :: "string \<Rightarrow> string \<Rightarrow> bool" where
  "string_includes [] m = startsWith [] m"
| "string_includes (c # cs) m = (startsWith (c # cs) m \<or> string_includes cs m)"

text \<open>\<^verbatim>\<open>Array.prototype.some\<close>.\<close>

fun array_some :: "'a list \<Rightarrow> ('a \<Rightarrow> bool) \<Rightarrow> bool" where
  "array_some [] f = False"
| "array_some (x # xs) f = (f x \<or> array_some xs f)"

section \<open>Public subnet discovery (the variant with route-table inspection)\<close>

text \<open>The callback \<^verbatim>\<open>route => route.gatewayId?.startsWith("igw-")\<close>: an absent gateway
  identifier gives \<^verbatim>\<open>undefined\<close>, which \<^verbatim>\<open>some\<close> reads as false.\<close>

definition routesToInternetGateway :: "route \<Rightarrow> bool" where
  "routesToInternetGateway r =
     (case gatewayId r of None \<Rightarrow> False | Some g \<Rightarrow> startsWith g ''igw-'')"

text \<open>The test of the handler,
  \<^verbatim>\<open>error instanceof Error && error.message.includes("query returned no results")\<close>.
  The message is read only when the thrown value is an instance of \<^verbatim>\<open>Error\<close>.\<close>

fun noExplicitRouteTable :: "thrown \<Rightarrow> bool" where
  "noExplicitRouteTable (ErrorInstance message) = string_includes message ''query returned no results''"
| "noExplicitRouteTable (NonError _) = False"

text \<open>The filters of the two lookups, as the script writes them.\<close>

definition subnetAssociationFilters :: "string \<Rightarrow> inventoryFilter list" where
  "subnetAssociationFilters subnetId =
     [\<lparr>filter_name = ''association.subnet-id'', filter_values = [subnetId]\<rparr>]"

definition mainAssociationFilters :: "string \<Rightarrow> inventoryFilter list" where
  "mainAssociationFilters vpcId =
     [\<lparr>filter_name = ''vpc-id'', filter_values = [vpcId]\<rparr>,
      \<lparr>filter_name = ''association.main'', filter_values = [''true'']\<rparr>]"

definition vpcFilters :: "string \<Rightarrow> inventoryFilter list" where
  "vpcFilters vpcId = [\<lparr>filter_name = ''vpc-id'', filter_values = [vpcId]\<rparr>]"

text \<open>
  The body of the \<^verbatim>\<open>for\<close> loop for one subnet: the \<^verbatim>\<open>try\<close> block looks the explicitly
  associated route table up and pushes the subnet when the table routes to an internet
  gateway; the \<^verbatim>\<open>catch\<close> block looks the main route table up when the handler's test
  holds and throws the value again otherwise. A value thrown by the lookup inside the
  handler is not caught. The result is the updated \<^verbatim>\<open>publicSubnetIds\<close> or the thrown
  value.
\<close>

definition loopBody ::
  "inventory \<Rightarrow> string \<Rightarrow> string \<Rightarrow> string list \<Rightarrow> call list
     \<Rightarrow> (thrown + string list) \<times> call list" where
  "loopBody aws vpcId subnetId publicSubnetIds calls =
     (case awsGetRouteTable aws (subnetAssociationFilters subnetId) calls of
        (Inr routeTable, calls1) \<Rightarrow>
          (let isPublic = array_some (routes routeTable) routesToInternetGateway
           in (Inr (if isPublic then publicSubnetIds @ [subnetId] else publicSubnetIds), calls1))
      | (Inl error, calls1) \<Rightarrow>
          (if noExplicitRouteTable error then
             (case awsGetRouteTable aws (mainAssociationFilters vpcId) calls1 of
                (Inr mainRouteTable, calls2) \<Rightarrow>
                  (let isPublic = array_some (routes mainRouteTable) routesToInternetGateway
                   in (Inr (if isPublic then publicSubnetIds @ [subnetId] else publicSubnetIds),
                       calls2))
              | (Inl mainError, calls2) \<Rightarrow> (Inl mainError, calls2))
           else (Inl error, calls1)))"

text \<open>The loop \<^verbatim>\<open>for (const subnetId of subnets.ids)\<close>; a thrown value ends it.\<close>

fun forSubnetIds ::
  "inventory \<Rightarrow> string \<Rightarrow> string list \<Rightarrow> string list \<Rightarrow> call list
     \<Rightarrow> (thrown + string list) \<times> call list" where
  "forSubnetIds aws vpcId [] publicSubnetIds calls = (Inr publicSubnetIds, calls)"
| "forSubnetIds aws vpcId (subnetId # rest) publicSubnetIds calls =
     (case loopBody aws vpcId subnetId publicSubnetIds calls of
        (Inl error, calls1) \<Rightarrow> (Inl error, calls1)
      | (Inr publicSubnetIds1, calls1) \<Rightarrow> forSubnetIds aws vpcId rest publicSubnetIds1 calls1)"

text \<open>The callback of \<^verbatim>\<open>publicSubnets\<close>, applied to the identifier of the VPC: it
  enumerates the subnets, starts from an empty \<^verbatim>\<open>publicSubnetIds\<close> and returns it after
  the loop.\<close>

definition publicSubnets ::
  "inventory \<Rightarrow> string \<Rightarrow> call list \<Rightarrow> (thrown + string list) \<times> call list" where
  "publicSubnets aws vpcId calls =
     (case awsGetSubnets aws (vpcFilters vpcId) calls of
        (Inl error, calls1) \<Rightarrow> (Inl error, calls1)
      | (Inr subnets, calls1) \<Rightarrow> forSubnetIds aws vpcId (ids subnets) [] calls1)"

text \<open>Reading index 0 of an array: \<^verbatim>\<open>undefined\<close> (here \<open>None\<close>) when it is empty.\<close>

fun index0 :: "'a list \<Rightarrow> 'a option" where
  "index0 [] = None"
| "index0 (x # xs) = Some x"

text \<open>The \<^verbatim>\<open>subnetId\<close> argument of the instance,
  \<^verbatim>\<open>publicSubnets.apply((subnets) => subnets[0])\<close>.\<close>

definition sftpInstance_subnetId ::
  "inventory \<Rightarrow> string \<Rightarrow> call list \<Rightarrow> (thrown + string option) \<times> call list" where
  "sftpInstance_subnetId aws vpcId calls =
     (case publicSubnets aws vpcId calls of
        (Inl error, calls1) \<Rightarrow> (Inl error, calls1)
      | (Inr subnets, calls1) \<Rightarrow> (Inr (index0 subnets), calls1))"

section \<open>The variant of \<^verbatim>\<open>src/index.ts\<close>\<close>

text \<open>There \<^verbatim>\<open>publicSubnets\<close> is the result of \<^verbatim>\<open>getSubnets\<close> itself, and the instance
  takes \<^verbatim>\<open>subnets.ids[0]\<close>.\<close>

definition publicSubnets_index ::
  "inventory \<Rightarrow> string \<Rightarrow> call list \<Rightarrow> (thrown + getSubnetsResult) \<times> call list" where
  "publicSubnets_index aws vpcId calls = awsGetSubnets aws (vpcFilters vpcId) calls"

definition sftpInstance_subnetId_index ::
  "inventory \<Rightarrow> string \<Rightarrow> call list \<Rightarrow> (thrown + string option) \<times> call list" where
  "sftpInstance_subnetId_index aws vpcId calls =
     (case publicSubnets_index aws vpcId calls of
        (Inl error, calls1) \<Rightarrow> (Inl error, calls1)
      | (Inr subnets, calls1) \<Rightarrow> (Inr (index0 (ids subnets)), calls1))"

section \<open>Derived notions used in the statements\<close>

text \<open>The verdict of the loop body on one subnet: the thrown value when the body throws,
  and otherwise whether the body, started from an empty list, pushes the subnet.\<close>

definition classifySubnet :: "inventory \<Rightarrow> string \<Rightarrow> string \<Rightarrow> thrown + bool" where
  "classifySubnet aws vpcId subnetId =
     (case fst (loopBody aws vpcId subnetId [] []) of
        Inl error \<Rightarrow> Inl error
      | Inr pushed \<Rightarrow> Inr (pushed \<noteq> []))"

text \<open>The specification's rule, in its own words: a route table is public when at least
  one of its routes has a gateway identifier that starts with the internet-gateway prefix.\<close>

definition hasInternetGatewayRoute_spec :: "routeTable \<Rightarrow> bool" where
  "hasInternetGatewayRoute_spec table =
     (\<exists>r \<in> set (routes table). case gatewayId r of None \<Rightarrow> False | Some g \<Rightarrow> prefix ''igw-'' g)"

text \<open>The specification's effective route table of a subnet: the explicitly associated
  table when the inventory has one, otherwise the main route table of the VPC.\<close>

definition effectiveRouteTable_spec :: "inventory \<Rightarrow> string \<Rightarrow> string \<Rightarrow> routeTable option" where
  "effectiveRouteTable_spec aws vpcId subnetId =
     (case getRouteTable aws (subnetAssociationFilters subnetId) of
        Inr table \<Rightarrow> Some table
      | Inl _ \<Rightarrow>
          (case getRouteTable aws (mainAssociationFilters vpcId) of
             Inr table \<Rightarrow> Some table
           | Inl _ \<Rightarrow> None))"

section \<open>Example inventories\<close>

text \<open>The error with which the provider answers a lookup that matches nothing.\<close>

definition noResultsError :: thrown where
  "noResultsError = ErrorInstance ''Your query returned no results. Please change your search criteria and try again.''"

text \<open>A snapshot of one VPC: its subnets in enumeration order, the answers to the lookups
  by subnet association (a subnet that is not listed has no explicit association), and the
  answer to the lookup of the main route table.\<close>

definition snapshot ::
  "string \<Rightarrow> string list \<Rightarrow> (string \<times> (thrown + routeTable)) list \<Rightarrow> (thrown + routeTable)
     \<Rightarrow> inventory" where
  "snapshot vpc subnetIds explicitTables mainTable =
     \<lparr>getSubnets = (\<lambda>filters.
        if filters = vpcFilters vpc then Inr \<lparr>ids = subnetIds\<rparr> else Inl noResultsError),
      getRouteTable = (\<lambda>filters.
        if filters = mainAssociationFilters vpc then mainTable
        else (case map_of (map (\<lambda>(s, t). (subnetAssociationFilters s, t)) explicitTables) filters of
                Some t \<Rightarrow> t
              | None \<Rightarrow> Inl noResultsError))\<rparr>"

definition rtb_igw :: routeTable where
  "rtb_igw = \<lparr>routeTableId = ''rtb-a'',
     routes = [\<lparr>cidrBlock = ''172.31.0.0/16'', gatewayId = Some ''local''\<rparr>,
               \<lparr>cidrBlock = ''0.0.0.0/0'', gatewayId = Some ''igw-1''\<rparr>]\<rparr>"

definition rtb_nat :: routeTable where
  "rtb_nat = \<lparr>routeTableId = ''rtb-c'',
     routes = [\<lparr>cidrBlock = ''172.31.0.0/16'', gatewayId = Some ''local''\<rparr>,
               \<lparr>cidrBlock = ''0.0.0.0/0'', gatewayId = None\<rparr>]\<rparr>"

definition rtb_main :: routeTable where
  "rtb_main = \<lparr>routeTableId = ''rtb-main'',
     routes = [\<lparr>cidrBlock = ''0.0.0.0/0'', gatewayId = Some ''igw-1''\<rparr>]\<rparr>"

text \<open>The scenario of the specification, with a private subnet enumerated first: \<open>c\<close> has
  an explicit table without an internet gateway, \<open>a\<close> an explicit table with one, and \<open>b\<close>
  no explicit association, in a VPC whose main table has one.\<close>

definition exampleVpc :: inventory where
  "exampleVpc = snapshot ''vpc-1'' [''c'', ''a'', ''b'']
     [(''c'', Inr rtb_nat), (''a'', Inr rtb_igw)] (Inr rtb_main)"

text \<open>The same VPC with the public subnet \<open>a\<close> enumerated first.\<close>

definition publicFirstVpc :: inventory where
  "publicFirstVpc = snapshot ''vpc-1'' [''a'', ''c'']
     [(''c'', Inr rtb_nat), (''a'', Inr rtb_igw)] (Inr rtb_main)"

text \<open>A VPC in which the lookup for the second subnet is refused.\<close>

definition deniedVpc :: inventory where
  "deniedVpc = snapshot ''vpc-1'' [''a'', ''b'']
     [(''a'', Inr rtb_igw), (''b'', Inl (ErrorInstance ''AccessDenied''))] (Inr rtb_main)"

text \<open>A VPC in which the lookup for the only subnet throws a value that is not an
  \<^verbatim>\<open>Error\<close>, whose text is the marker itself.\<close>

definition nonErrorVpc :: inventory where
  "nonErrorVpc = snapshot ''vpc-1'' [''b'']
     [(''b'', Inl (NonError ''query returned no results''))] (Inr rtb_main)"

text \<open>A VPC whose only subnet has no explicit association and which has no main route
  table either.\<close>

definition noMainVpc :: inventory where
  "noMainVpc = snapshot ''vpc-1'' [''b''] [] (Inl noResultsError)"

text \<open>A VPC without subnets.\<close>

definition emptyVpc :: inventory where
  "emptyVpc = snapshot ''vpc-1'' [] [] (Inr rtb_main)"

section \<open>Auxiliary facts\<close>

lemma array_some_iff: "array_some xs f \<longleftrightarrow> (\<exists>x\<in>set xs. f x)"
  by (induction xs) auto

lemma startsWith_prefix: "startsWith s p \<longleftrightarrow> prefix p s"
  unfolding startsWith_def
  by (metis append_eq_conv_conj prefix_def take_is_prefix)

text \<open>\<open>string_includes\<close> is substring containment.\<close>

lemma string_includes_iff: "string_includes s m \<longleftrightarrow> (\<exists>pre post. s = pre @ m @ post)"
proof (induction s)
  case Nil
  then show ?case by (auto simp: startsWith_def)
next
  case (Cons c cs)
  show ?case
  proof
    assume "string_includes (c # cs) m"
    then consider "startsWith (c # cs) m" | "string_includes cs m" by auto
    then show "\<exists>pre post. c # cs = pre @ m @ post"
    proof cases
      case 1
      then obtain post where "c # cs = m @ post"
        by (auto simp: startsWith_prefix prefix_def)
      then have "c # cs = [] @ m @ post" by simp
      then show ?thesis by blast
    next
      case 2
      with Cons.IH obtain pre post where "cs = pre @ m @ post" by blast
      then have "c # cs = (c # pre) @ m @ post" by simp
      then show ?thesis by blast
    qed
  next
    assume "\<exists>pre post. c # cs = pre @ m @ post"
    then obtain pre post where eq: "c # cs = pre @ m @ post" by blast
    show "string_includes (c # cs) m"
    proof (cases pre)
      case Nil
      with eq have "prefix m (c # cs)" by (simp add: prefix_def)
      then show ?thesis by (simp add: startsWith_prefix)
    next
      case (Cons p ps)
      with eq have "cs = ps @ m @ post" by simp
      with Cons.IH show ?thesis by auto
    qed
  qed
qed

lemma routesToInternetGateway_spec:
  "array_some (routes table) routesToInternetGateway \<longleftrightarrow> hasInternetGatewayRoute_spec table"
  by (simp add: array_some_iff hasInternetGatewayRoute_spec_def routesToInternetGateway_def
      startsWith_prefix cong: option.case_cong)

text \<open>The verdict in terms of the answers of the inventory.\<close>

lemma classifySubnet_eq:
  "classifySubnet aws vpcId subnetId =
     (case getRouteTable aws (subnetAssociationFilters subnetId) of
        Inr routeTable \<Rightarrow> Inr (array_some (routes routeTable) routesToInternetGateway)
      | Inl error \<Rightarrow>
          if noExplicitRouteTable error then
            (case getRouteTable aws (mainAssociationFilters vpcId) of
               Inr mainRouteTable \<Rightarrow>
                 Inr (array_some (routes mainRouteTable) routesToInternetGateway)
             | Inl mainError \<Rightarrow> Inl mainError)
          else Inl error)"
  by (simp add: classifySubnet_def loopBody_def awsGetRouteTable_def Let_def split: sum.splits)

lemma loopBody_fst:
  "fst (loopBody aws vpcId subnetId publicSubnetIds calls) =
     (case classifySubnet aws vpcId subnetId of
        Inl error \<Rightarrow> Inl error
      | Inr isPublic \<Rightarrow> Inr (if isPublic then publicSubnetIds @ [subnetId] else publicSubnetIds))"
  by (simp add: classifySubnet_eq loopBody_def awsGetRouteTable_def Let_def split: sum.splits)

text \<open>The loop returns a list exactly when no subnet's body throws, and the list is then
  the initial one followed by the subnets judged public, in the order of the loop.\<close>

lemma forSubnetIds_Inr_iff:
  "fst (forSubnetIds aws vpcId xs acc calls) = Inr result \<longleftrightarrow>
     (\<forall>s\<in>set xs. \<exists>b. classifySubnet aws vpcId s = Inr b) \<and>
     result = acc @ filter (\<lambda>s. classifySubnet aws vpcId s = Inr True) xs"
proof (induction xs arbitrary: acc calls)
  case Nil
  then show ?case by auto
next
  case (Cons x xs)
  obtain r c where lb: "loopBody aws vpcId x acc calls = (r, c)"
    by (cases "loopBody aws vpcId x acc calls")
  have r: "r = (case classifySubnet aws vpcId x of
        Inl error \<Rightarrow> Inl error
      | Inr isPublic \<Rightarrow> Inr (if isPublic then acc @ [x] else acc))"
    using loopBody_fst[of aws vpcId x acc calls] lb by simp
  show ?case
  proof (cases "classifySubnet aws vpcId x")
    case (Inl e)
    with r lb show ?thesis by auto
  next
    case (Inr b)
    with r lb Cons.IH show ?thesis by (cases b) auto
  qed
qed

text \<open>The loop throws the value of the first subnet whose body throws.\<close>

lemma forSubnetIds_first_failure:
  assumes "\<forall>t\<in>set pre. \<exists>b. classifySubnet aws vpcId t = Inr b"
    and "classifySubnet aws vpcId s = Inl e"
  shows "fst (forSubnetIds aws vpcId (pre @ s # post) acc calls) = Inl e"
  using assms(1)
proof (induction pre arbitrary: acc calls)
  case Nil
  obtain r c where lb: "loopBody aws vpcId s acc calls = (r, c)"
    by (cases "loopBody aws vpcId s acc calls")
  with loopBody_fst[of aws vpcId s acc calls] assms(2) show ?case by simp
next
  case (Cons x xs)
  obtain r c where lb: "loopBody aws vpcId x acc calls = (r, c)"
    by (cases "loopBody aws vpcId x acc calls")
  from Cons.prems obtain b where "classifySubnet aws vpcId x = Inr b" by auto
  with loopBody_fst[of aws vpcId x acc calls] lb Cons show ?case by simp
qed

lemma forSubnetIds_failure:
  assumes "s \<in> set xs" and "classifySubnet aws vpcId s = Inl e"
  shows "\<exists>e'. fst (forSubnetIds aws vpcId xs acc calls) = Inl e'"
proof (cases "fst (forSubnetIds aws vpcId xs acc calls)")
  case (Inl a)
  then show ?thesis by blast
next
  case (Inr res)
  then have "\<forall>s\<in>set xs. \<exists>b. classifySubnet aws vpcId s = Inr b"
    by (simp add: forSubnetIds_Inr_iff)
  with assms show ?thesis by auto
qed

text \<open>The outcome of the whole discovery, once the enumeration has answered.\<close>

lemma publicSubnets_fst:
  assumes "getSubnets aws (vpcFilters vpcId) = Inr subnets"
  shows "fst (publicSubnets aws vpcId calls) =
           fst (forSubnetIds aws vpcId (ids subnets) [] (calls @ [GetSubnets (vpcFilters vpcId)]))"
  using assms by (simp add: publicSubnets_def awsGetSubnets_def)

text \<open>A run appends its queries to the list it is given, and nothing else of that list
  reaches its result.\<close>

lemma loopBody_calls:
  "loopBody aws vpcId subnetId acc calls =
     (fst (loopBody aws vpcId subnetId acc []), calls @ snd (loopBody aws vpcId subnetId acc []))"
  by (simp add: loopBody_def awsGetRouteTable_def Let_def split: sum.splits)

lemma forSubnetIds_calls:
  "forSubnetIds aws vpcId xs acc calls =
     (fst (forSubnetIds aws vpcId xs acc []), calls @ snd (forSubnetIds aws vpcId xs acc []))"
proof (induction xs arbitrary: acc calls)
  case Nil
  then show ?case by simp
next
  case (Cons x xs)
  obtain r c where lb: "loopBody aws vpcId x acc [] = (r, c)"
    by (cases "loopBody aws vpcId x acc []")
  then have lb': "loopBody aws vpcId x acc calls = (r, calls @ c)"
    using loopBody_calls[of aws vpcId x acc calls] by simp
  show ?case
  proof (cases r)
    case (Inl e)
    with lb lb' show ?thesis by simp
  next
    case (Inr acc')
    have "forSubnetIds aws vpcId xs acc' (calls @ c) =
            (fst (forSubnetIds aws vpcId xs acc' []), (calls @ c) @ snd (forSubnetIds aws vpcId xs acc' []))"
      by (rule Cons.IH)
    moreover have "forSubnetIds aws vpcId xs acc' c =
            (fst (forSubnetIds aws vpcId xs acc' []), c @ snd (forSubnetIds aws vpcId xs acc' []))"
      by (rule Cons.IH)
    ultimately show ?thesis using Inr lb lb' by simp
  qed
qed

lemma publicSubnets_calls:
  "publicSubnets aws vpcId calls =
     (fst (publicSubnets aws vpcId []), calls @ snd (publicSubnets aws vpcId []))"
proof (cases "getSubnets aws (vpcFilters vpcId)")
  case (Inl e)
  then show ?thesis by (simp add: publicSubnets_def awsGetSubnets_def)
next
  case (Inr subnets)
  let ?q = "[GetSubnets (vpcFilters vpcId)]"
  have a: "forSubnetIds aws vpcId (ids subnets) [] (calls @ ?q) =
          (fst (forSubnetIds aws vpcId (ids subnets) [] []),
           (calls @ ?q) @ snd (forSubnetIds aws vpcId (ids subnets) [] []))"
    by (rule forSubnetIds_calls)
  have b: "forSubnetIds aws vpcId (ids subnets) [] ?q =
          (fst (forSubnetIds aws vpcId (ids subnets) [] []),
           ?q @ snd (forSubnetIds aws vpcId (ids subnets) [] []))"
    by (rule forSubnetIds_calls)
  show ?thesis using Inr a b by (simp add: publicSubnets_def awsGetSubnets_def)
qed

text \<open>The discovery throws the value of the first subnet whose body throws, and throws
  some value as soon as the body throws for any enumerated subnet.\<close>

lemma publicSubnets_first_failure:
  assumes "getSubnets aws (vpcFilters vpcId) = Inr subnets"
    and "ids subnets = pre @ s # post"
    and "\<forall>t\<in>set pre. \<exists>b. classifySubnet aws vpcId t = Inr b"
    and "classifySubnet aws vpcId s = Inl e"
  shows "fst (publicSubnets aws vpcId calls) = Inl e"
  using assms by (simp add: publicSubnets_fst forSubnetIds_first_failure)

lemma publicSubnets_failure:
  assumes "getSubnets aws (vpcFilters vpcId) = Inr subnets"
    and "s \<in> set (ids subnets)"
    and "classifySubnet aws vpcId s = Inl e"
  shows "\<exists>e'. fst (publicSubnets aws vpcId calls) = Inl e'"
  using assms by (simp add: publicSubnets_fst forSubnetIds_failure)

text \<open>The handler's test holds exactly for an \<^verbatim>\<open>Error\<close> whose message contains the
  marker, and it alone decides whether the body makes the second lookup.\<close>

lemma noExplicitRouteTable_iff:
  "noExplicitRouteTable error \<longleftrightarrow>
     (\<exists>message before after. error = ErrorInstance message \<and>
        message = before @ ''query returned no results'' @ after)"
  by (cases error) (simp_all add: string_includes_iff)

lemma loopBody_thrown_calls:
  assumes "getRouteTable aws (subnetAssociationFilters subnetId) = Inl error"
  shows "snd (loopBody aws vpcId subnetId publicSubnetIds calls) =
           calls @ GetRouteTable (subnetAssociationFilters subnetId) #
             (if noExplicitRouteTable error then [GetRouteTable (mainAssociationFilters vpcId)]
              else [])"
  using assms by (simp add: loopBody_def awsGetRouteTable_def Let_def split: sum.splits)

text \<open>Reading index 0.\<close>

lemma index0_Some_iff: "index0 xs = Some x \<longleftrightarrow> (\<exists>rest. xs = x # rest)"
  by (cases xs) auto


text \<open>Unfolding rules for running the script on the example inventories.\<close>

lemmas example_defs = snapshot_def vpcFilters_def mainAssociationFilters_def
  subnetAssociationFilters_def noResultsError_def rtb_igw_def rtb_nat_def rtb_main_def
  exampleVpc_def publicFirstVpc_def deniedVpc_def nonErrorVpc_def noMainVpc_def emptyVpc_def

lemmas run_defs = publicSubnets_def awsGetSubnets_def awsGetRouteTable_def loopBody_def
  routesToInternetGateway_def startsWith_def Let_def sftpInstance_subnetId_def
  sftpInstance_subnetId_index_def publicSubnets_index_def

section \<open>The claims\<close>

text \<open>
  C1. Whenever classification returns a result, a subnet identifier appears in it if and
  only if the subnet is enumerated for the VPC and its effective route table (the
  explicitly associated table when there is one, otherwise the main table of the VPC)
  has at least one route whose gateway identifier starts with \<^verbatim>\<open>igw-\<close>. In particular a
  subnet whose explicit table has only routes with another gateway or with none is
  not in the result.
\<close>

theorem publicSubnets_iff_internet_gateway_route:
  assumes enum: "getSubnets aws (vpcFilters vpcId) = Inr subnets"
    and res: "fst (publicSubnets aws vpcId calls) = Inr result"
  shows "(subnetId \<in> set result \<longleftrightarrow>
            subnetId \<in> set (ids subnets) \<and>
            (\<exists>table. effectiveRouteTable_spec aws vpcId subnetId = Some table \<and>
                     hasInternetGatewayRoute_spec table))
         \<and> (\<forall>table. getRouteTable aws (subnetAssociationFilters subnetId) = Inr table \<and>
                (\<forall>r\<in>set (routes table). \<forall>g. gatewayId r = Some g \<longrightarrow> \<not> prefix ''igw-'' g)
              \<longrightarrow> subnetId \<notin> set result)"
proof -
  from res enum have loop:
    "fst (forSubnetIds aws vpcId (ids subnets) [] (calls @ [GetSubnets (vpcFilters vpcId)])) = Inr result"
    by (simp add: publicSubnets_fst)
  then have ok: "\<forall>s\<in>set (ids subnets). \<exists>b. classifySubnet aws vpcId s = Inr b"
    and result: "result = filter (\<lambda>s. classifySubnet aws vpcId s = Inr True) (ids subnets)"
    by (simp_all add: forSubnetIds_Inr_iff)
  have verdict: "classifySubnet aws vpcId subnetId = Inr True \<longleftrightarrow>
      (\<exists>table. effectiveRouteTable_spec aws vpcId subnetId = Some table \<and>
               hasInternetGatewayRoute_spec table)"
    if "subnetId \<in> set (ids subnets)"
  proof -
    from ok that obtain b where b: "classifySubnet aws vpcId subnetId = Inr b" by blast
    then show ?thesis
      by (auto simp: classifySubnet_eq effectiveRouteTable_spec_def routesToInternetGateway_spec
          split: sum.splits if_splits)
  qed
  have iff: "subnetId \<in> set result \<longleftrightarrow>
            subnetId \<in> set (ids subnets) \<and>
            (\<exists>table. effectiveRouteTable_spec aws vpcId subnetId = Some table \<and>
                     hasInternetGatewayRoute_spec table)"
    using result verdict by auto
  have excl: "subnetId \<notin> set result"
    if t: "getRouteTable aws (subnetAssociationFilters subnetId) = Inr table"
      and no: "\<forall>r\<in>set (routes table). \<forall>g. gatewayId r = Some g \<longrightarrow> \<not> prefix ''igw-'' g"
    for table
  proof -
    from no have "\<not> hasInternetGatewayRoute_spec table"
      by (auto simp: hasInternetGatewayRoute_spec_def split: option.splits)
    moreover from t have "effectiveRouteTable_spec aws vpcId subnetId = Some table"
      by (simp add: effectiveRouteTable_spec_def)
    ultimately show ?thesis using iff by simp
  qed
  from iff excl show ?thesis by blast
qed

theorem publicSubnets_iff_internet_gateway_route_witness:
  "getSubnets exampleVpc (vpcFilters ''vpc-1'') = Inr \<lparr>ids = [''c'', ''a'', ''b'']\<rparr>
   \<and> fst (publicSubnets exampleVpc ''vpc-1'' []) = Inr [''a'', ''b'']
   \<and> ''b'' \<in> set [''a'', ''b'']
   \<and> effectiveRouteTable_spec exampleVpc ''vpc-1'' ''b'' = Some rtb_main
   \<and> hasInternetGatewayRoute_spec rtb_main"
proof -
  have h1: "getSubnets exampleVpc (vpcFilters ''vpc-1'') = Inr \<lparr>ids = [''c'', ''a'', ''b'']\<rparr>"
    by (simp add: example_defs)
  have h2: "fst (publicSubnets exampleVpc ''vpc-1'' []) = Inr [''a'', ''b'']"
    by (simp add: example_defs run_defs)
  have e: "effectiveRouteTable_spec exampleVpc ''vpc-1'' ''b'' = Some rtb_main"
    by (simp add: effectiveRouteTable_spec_def example_defs)
  from publicSubnets_iff_internet_gateway_route[OF h1 h2, of "''b''"] e
  have "hasInternetGatewayRoute_spec rtb_main" by simp
  with h1 h2 e show ?thesis by simp
qed

text \<open>
  C2. A lookup failure other than "not found" is fatal. When a lookup for an enumerated
  subnet (the explicit one, or the main-table one after a "not found") answers with a
  thrown value that fails the handler's test, the call ends with a thrown value and
  returns no list, whatever was collected before. When the run reaches that lookup, that
  is when the body throws for no earlier subnet, the value thrown by the call is that
  very error.
\<close>

theorem fatal_lookup_failure_aborts:
  assumes enum: "getSubnets aws (vpcFilters vpcId) = Inr subnets"
    and split: "ids subnets = pre @ subnetId # post"
    and fails: "getRouteTable aws (subnetAssociationFilters subnetId) = Inl error \<or>
                (\<exists>notFound. getRouteTable aws (subnetAssociationFilters subnetId) = Inl notFound \<and>
                   noExplicitRouteTable notFound \<and>
                   getRouteTable aws (mainAssociationFilters vpcId) = Inl error)"
    and fatal: "\<not> noExplicitRouteTable error"
  shows "(\<exists>thrownValue. fst (publicSubnets aws vpcId calls) = Inl thrownValue) \<and>
         ((\<forall>t\<in>set pre. \<exists>b. classifySubnet aws vpcId t = Inr b) \<longrightarrow>
            fst (publicSubnets aws vpcId calls) = Inl error)"
proof -
  from fails fatal have v: "classifySubnet aws vpcId subnetId = Inl error"
    by (auto simp: classifySubnet_eq)
  from split have mem: "subnetId \<in> set (ids subnets)" by simp
  have "\<exists>thrownValue. fst (publicSubnets aws vpcId calls) = Inl thrownValue"
    using enum mem v by (rule publicSubnets_failure)
  moreover have "fst (publicSubnets aws vpcId calls) = Inl error"
    if "\<forall>t\<in>set pre. \<exists>b. classifySubnet aws vpcId t = Inr b"
    using enum split that v by (rule publicSubnets_first_failure)
  ultimately show ?thesis by blast
qed

theorem fatal_lookup_failure_aborts_witness:
  "getSubnets deniedVpc (vpcFilters ''vpc-1'') = Inr \<lparr>ids = [''a'', ''b'']\<rparr>
   \<and> getRouteTable deniedVpc (subnetAssociationFilters ''b'') = Inl (ErrorInstance ''AccessDenied'')
   \<and> \<not> noExplicitRouteTable (ErrorInstance ''AccessDenied'')
   \<and> classifySubnet deniedVpc ''vpc-1'' ''a'' = Inr True
   \<and> fst (publicSubnets deniedVpc ''vpc-1'' []) = Inl (ErrorInstance ''AccessDenied'')"
proof -
  have h1: "getSubnets deniedVpc (vpcFilters ''vpc-1'') = Inr \<lparr>ids = [''a'', ''b'']\<rparr>"
    by (simp add: example_defs)
  have h2: "ids \<lparr>ids = [''a'', ''b'']\<rparr> = [''a''] @ ''b'' # []" by simp
  have l: "getRouteTable deniedVpc (subnetAssociationFilters ''b'') = Inl (ErrorInstance ''AccessDenied'')"
    by (simp add: example_defs)
  then have h3: "getRouteTable deniedVpc (subnetAssociationFilters ''b'') = Inl (ErrorInstance ''AccessDenied'') \<or>
                (\<exists>notFound. getRouteTable deniedVpc (subnetAssociationFilters ''b'') = Inl notFound \<and>
                   noExplicitRouteTable notFound \<and>
                   getRouteTable deniedVpc (mainAssociationFilters ''vpc-1'') = Inl (ErrorInstance ''AccessDenied''))"
    by (rule disjI1)
  have h4: "\<not> noExplicitRouteTable (ErrorInstance ''AccessDenied'')"
    by (simp add: startsWith_def)
  have a: "classifySubnet deniedVpc ''vpc-1'' ''a'' = Inr True"
    by (simp add: classifySubnet_eq example_defs routesToInternetGateway_def startsWith_def)
  then have reach: "\<forall>t\<in>set [''a'']. \<exists>b. classifySubnet deniedVpc ''vpc-1'' t = Inr b" by auto
  from fatal_lookup_failure_aborts[OF h1 h2 h3 h4, of "[]"] reach
  have "fst (publicSubnets deniedVpc ''vpc-1'' []) = Inl (ErrorInstance ''AccessDenied'')"
    by blast
  with h1 l h4 a show ?thesis by blast
qed

text \<open>
  C3. When the lookup by subnet association answers "not found", the body makes a
  second lookup with the filters \<^verbatim>\<open>vpc-id\<close> (the VPC) and \<^verbatim>\<open>association.main = true\<close>,
  and pushes the subnet exactly when that main table has an internet-gateway route; a
  classification that returns lists the subnet exactly in that case. The explicit path
  decides by the same rule on the explicit table.
\<close>

theorem fallback_to_main_route_table:
  assumes notFound: "getRouteTable aws (subnetAssociationFilters subnetId) = Inl error"
    and test: "noExplicitRouteTable error"
  shows "snd (loopBody aws vpcId subnetId publicSubnetIds calls) =
           calls @ [GetRouteTable [\<lparr>filter_name = ''association.subnet-id'', filter_values = [subnetId]\<rparr>],
                    GetRouteTable [\<lparr>filter_name = ''vpc-id'', filter_values = [vpcId]\<rparr>,
                                   \<lparr>filter_name = ''association.main'', filter_values = [''true'']\<rparr>]]
         \<and> fst (loopBody aws vpcId subnetId publicSubnetIds calls) =
             (case getRouteTable aws [\<lparr>filter_name = ''vpc-id'', filter_values = [vpcId]\<rparr>,
                                     \<lparr>filter_name = ''association.main'', filter_values = [''true'']\<rparr>] of
                Inl mainError \<Rightarrow> Inl mainError
              | Inr mainRouteTable \<Rightarrow>
                  Inr (if hasInternetGatewayRoute_spec mainRouteTable
                       then publicSubnetIds @ [subnetId] else publicSubnetIds))
         \<and> (\<forall>subnets result.
               getSubnets aws (vpcFilters vpcId) = Inr subnets \<and> subnetId \<in> set (ids subnets) \<and>
               fst (publicSubnets aws vpcId calls) = Inr result \<longrightarrow>
               (\<exists>mainRouteTable. getRouteTable aws (mainAssociationFilters vpcId) = Inr mainRouteTable \<and>
                  (subnetId \<in> set result \<longleftrightarrow> hasInternetGatewayRoute_spec mainRouteTable)))
         \<and> (\<forall>other otherTable. getRouteTable aws (subnetAssociationFilters other) = Inr otherTable \<longrightarrow>
               fst (loopBody aws vpcId other publicSubnetIds calls) =
                 Inr (if hasInternetGatewayRoute_spec otherTable
                      then publicSubnetIds @ [other] else publicSubnetIds))"
proof -
  have 1: "snd (loopBody aws vpcId subnetId publicSubnetIds calls) =
           calls @ [GetRouteTable [\<lparr>filter_name = ''association.subnet-id'', filter_values = [subnetId]\<rparr>],
                    GetRouteTable [\<lparr>filter_name = ''vpc-id'', filter_values = [vpcId]\<rparr>,
                                   \<lparr>filter_name = ''association.main'', filter_values = [''true'']\<rparr>]]"
    using assms
    by (simp add: loopBody_def awsGetRouteTable_def subnetAssociationFilters_def
        mainAssociationFilters_def Let_def split: sum.splits)
  have 2: "fst (loopBody aws vpcId subnetId publicSubnetIds calls) =
             (case getRouteTable aws [\<lparr>filter_name = ''vpc-id'', filter_values = [vpcId]\<rparr>,
                                     \<lparr>filter_name = ''association.main'', filter_values = [''true'']\<rparr>] of
                Inl mainError \<Rightarrow> Inl mainError
              | Inr mainRouteTable \<Rightarrow>
                  Inr (if hasInternetGatewayRoute_spec mainRouteTable
                       then publicSubnetIds @ [subnetId] else publicSubnetIds))"
    using assms
    by (simp add: loopBody_fst classifySubnet_eq mainAssociationFilters_def
        routesToInternetGateway_spec split: sum.splits)
  have 3: "\<exists>mainRouteTable. getRouteTable aws (mainAssociationFilters vpcId) = Inr mainRouteTable \<and>
                  (subnetId \<in> set result \<longleftrightarrow> hasInternetGatewayRoute_spec mainRouteTable)"
    if enum: "getSubnets aws (vpcFilters vpcId) = Inr subnets"
      and mem: "subnetId \<in> set (ids subnets)"
      and res: "fst (publicSubnets aws vpcId calls) = Inr result"
    for subnets result
  proof -
    from res enum have
      "fst (forSubnetIds aws vpcId (ids subnets) [] (calls @ [GetSubnets (vpcFilters vpcId)])) = Inr result"
      by (simp add: publicSubnets_fst)
    then have ok: "\<forall>s\<in>set (ids subnets). \<exists>b. classifySubnet aws vpcId s = Inr b"
      and result: "result = filter (\<lambda>s. classifySubnet aws vpcId s = Inr True) (ids subnets)"
      by (simp_all add: forSubnetIds_Inr_iff)
    from ok mem obtain b where b: "classifySubnet aws vpcId subnetId = Inr b" by blast
    with assms obtain mainRouteTable where
      m: "getRouteTable aws (mainAssociationFilters vpcId) = Inr mainRouteTable"
      and bm: "b = hasInternetGatewayRoute_spec mainRouteTable"
      by (auto simp: classifySubnet_eq routesToInternetGateway_spec split: sum.splits)
    from result mem b bm have "subnetId \<in> set result \<longleftrightarrow> hasInternetGatewayRoute_spec mainRouteTable"
      by auto
    with m show ?thesis by blast
  qed
  have 4: "fst (loopBody aws vpcId other publicSubnetIds calls) =
                 Inr (if hasInternetGatewayRoute_spec otherTable
                      then publicSubnetIds @ [other] else publicSubnetIds)"
    if "getRouteTable aws (subnetAssociationFilters other) = Inr otherTable" for other otherTable
    using that by (simp add: loopBody_fst classifySubnet_eq routesToInternetGateway_spec)
  from 1 2 3 4 show ?thesis by blast
qed

theorem fallback_to_main_route_table_witness:
  "getRouteTable exampleVpc (subnetAssociationFilters ''b'') = Inl noResultsError
   \<and> noExplicitRouteTable noResultsError
   \<and> getRouteTable exampleVpc (mainAssociationFilters ''vpc-1'') = Inr rtb_main
   \<and> hasInternetGatewayRoute_spec rtb_main
   \<and> loopBody exampleVpc ''vpc-1'' ''b'' [''a''] [] =
       (Inr [''a'', ''b''],
        [GetRouteTable (subnetAssociationFilters ''b''), GetRouteTable (mainAssociationFilters ''vpc-1'')])"
proof -
  have h1: "getRouteTable exampleVpc (subnetAssociationFilters ''b'') = Inl noResultsError"
    by (simp add: example_defs)
  have h2: "noExplicitRouteTable noResultsError"
    by (simp add: noResultsError_def startsWith_def)
  have m: "getRouteTable exampleVpc (mainAssociationFilters ''vpc-1'') = Inr rtb_main"
    by (simp add: example_defs)
  have p: "hasInternetGatewayRoute_spec rtb_main"
    by (simp add: hasInternetGatewayRoute_spec_def rtb_main_def)
  note t = fallback_to_main_route_table[OF h1 h2, of "''vpc-1''" "[''a'']" "[]"]
  from t have s: "snd (loopBody exampleVpc ''vpc-1'' ''b'' [''a''] []) =
      [GetRouteTable (subnetAssociationFilters ''b''), GetRouteTable (mainAssociationFilters ''vpc-1'')]"
    by (simp add: subnetAssociationFilters_def mainAssociationFilters_def)
  from t m p have f: "fst (loopBody exampleVpc ''vpc-1'' ''b'' [''a''] []) = Inr [''a'', ''b'']"
    by (simp add: mainAssociationFilters_def)
  from s f have "loopBody exampleVpc ''vpc-1'' ''b'' [''a''] [] =
       (Inr [''a'', ''b''],
        [GetRouteTable (subnetAssociationFilters ''b''), GetRouteTable (mainAssociationFilters ''vpc-1'')])"
    by (simp add: prod_eq_iff)
  with h1 h2 m p show ?thesis by blast
qed

text \<open>
  C4. The returned sequence is a subsequence of the enumeration: it is the enumeration
  filtered by the verdict on each subnet, so its order is the enumeration's order whichever
  path, explicit or fallback, each subnet took.
\<close>

theorem result_preserves_enumeration_order:
  assumes enum: "getSubnets aws (vpcFilters vpcId) = Inr subnets"
    and res: "fst (publicSubnets aws vpcId calls) = Inr result"
  shows "subseq result (ids subnets) \<and>
         result = filter (\<lambda>s. classifySubnet aws vpcId s = Inr True) (ids subnets)"
proof -
  from res enum have
    "fst (forSubnetIds aws vpcId (ids subnets) [] (calls @ [GetSubnets (vpcFilters vpcId)])) = Inr result"
    by (simp add: publicSubnets_fst)
  then have "result = filter (\<lambda>s. classifySubnet aws vpcId s = Inr True) (ids subnets)"
    by (simp add: forSubnetIds_Inr_iff)
  then show ?thesis by simp
qed

theorem result_preserves_enumeration_order_witness:
  "getSubnets exampleVpc (vpcFilters ''vpc-1'') = Inr \<lparr>ids = [''c'', ''a'', ''b'']\<rparr>
   \<and> fst (publicSubnets exampleVpc ''vpc-1'' []) = Inr [''a'', ''b'']
   \<and> subseq [''a'', ''b''] [''c'', ''a'', ''b'']"
proof -
  have h1: "getSubnets exampleVpc (vpcFilters ''vpc-1'') = Inr \<lparr>ids = [''c'', ''a'', ''b'']\<rparr>"
    by (simp add: example_defs)
  have h2: "fst (publicSubnets exampleVpc ''vpc-1'' []) = Inr [''a'', ''b'']"
    by (simp add: example_defs run_defs)
  from result_preserves_enumeration_order[OF h1 h2]
  have "subseq [''a'', ''b''] [''c'', ''a'', ''b'']" by simp
  with h1 h2 show ?thesis by simp
qed




text \<open>
  C6. After the lookup by subnet association has thrown, the fallback lookup is made
  exactly when the handler's test holds, and the test holds exactly when the thrown value
  is an \<^verbatim>\<open>Error\<close> whose message contains the marker \<^verbatim>\<open>query returned no results\<close>: the
  decision reads the text of the message. When the test fails the value is thrown again.
\<close>

theorem fallback_decided_by_message:
  assumes thrown: "getRouteTable aws (subnetAssociationFilters subnetId) = Inl error"
  shows "snd (loopBody aws vpcId subnetId publicSubnetIds calls) =
           calls @ GetRouteTable (subnetAssociationFilters subnetId) #
             (if noExplicitRouteTable error then [GetRouteTable (mainAssociationFilters vpcId)] else [])
         \<and> (noExplicitRouteTable error \<longleftrightarrow>
              (\<exists>message pre post. error = ErrorInstance message \<and>
                 message = pre @ ''query returned no results'' @ post))
         \<and> (\<not> noExplicitRouteTable error \<longrightarrow>
              fst (loopBody aws vpcId subnetId publicSubnetIds calls) = Inl error)"
proof -
  have 1: "snd (loopBody aws vpcId subnetId publicSubnetIds calls) =
           calls @ GetRouteTable (subnetAssociationFilters subnetId) #
             (if noExplicitRouteTable error then [GetRouteTable (mainAssociationFilters vpcId)] else [])"
    using thrown by (simp add: loopBody_def awsGetRouteTable_def Let_def split: sum.splits)
  have 2: "noExplicitRouteTable error \<longleftrightarrow>
              (\<exists>message pre post. error = ErrorInstance message \<and>
                 message = pre @ ''query returned no results'' @ post)"
    by (cases error) (simp_all add: string_includes_iff)
  have 3: "fst (loopBody aws vpcId subnetId publicSubnetIds calls) = Inl error"
    if "\<not> noExplicitRouteTable error"
    using thrown that by (simp add: loopBody_fst classifySubnet_eq)
  from 1 2 3 show ?thesis by blast
qed

theorem fallback_decided_by_message_witness:
  "getRouteTable exampleVpc (subnetAssociationFilters ''b'') = Inl noResultsError
   \<and> noExplicitRouteTable noResultsError
   \<and> snd (loopBody exampleVpc ''vpc-1'' ''b'' [] []) =
       [GetRouteTable (subnetAssociationFilters ''b''), GetRouteTable (mainAssociationFilters ''vpc-1'')]
   \<and> getRouteTable deniedVpc (subnetAssociationFilters ''b'') = Inl (ErrorInstance ''AccessDenied'')
   \<and> \<not> noExplicitRouteTable (ErrorInstance ''AccessDenied'')
   \<and> loopBody deniedVpc ''vpc-1'' ''b'' [] [] =
       (Inl (ErrorInstance ''AccessDenied''), [GetRouteTable (subnetAssociationFilters ''b'')])"
proof -
  have h1: "getRouteTable exampleVpc (subnetAssociationFilters ''b'') = Inl noResultsError"
    by (simp add: example_defs)
  have n1: "noExplicitRouteTable noResultsError"
    by (simp add: noResultsError_def startsWith_def)
  have h2: "getRouteTable deniedVpc (subnetAssociationFilters ''b'') = Inl (ErrorInstance ''AccessDenied'')"
    by (simp add: example_defs)
  have n2: "\<not> noExplicitRouteTable (ErrorInstance ''AccessDenied'')"
    by (simp add: startsWith_def)
  from fallback_decided_by_message[OF h1, of "''vpc-1''" "[]" "[]"] n1
  have a: "snd (loopBody exampleVpc ''vpc-1'' ''b'' [] []) =
       [GetRouteTable (subnetAssociationFilters ''b''), GetRouteTable (mainAssociationFilters ''vpc-1'')]"
    by simp
  from fallback_decided_by_message[OF h2, of "''vpc-1''" "[]" "[]"] n2
  have b: "loopBody deniedVpc ''vpc-1'' ''b'' [] [] =
       (Inl (ErrorInstance ''AccessDenied''), [GetRouteTable (subnetAssociationFilters ''b'')])"
    by (simp add: prod_eq_iff)
  from h1 n1 a h2 n2 b show ?thesis by blast
qed

text \<open>
  C7. The variant of \<^verbatim>\<open>src/index.ts\<close> makes the enumeration query only and passes the
  first enumerated identifier to the instance, with no route-table lookup. The two
  variants select the same subnet exactly when the first enumerated subnet is in the
  classifier's result (it is then its first element); on the example inventory, whose
  first enumerated subnet is private, they select different subnets. Inventories on which
  neither variant selects a subnet (the enumeration throws or is empty) are not meant.
\<close>

theorem index_variant_skips_classification:
  "sftpInstance_subnetId_index aws vpcId calls =
     ((case getSubnets aws (vpcFilters vpcId) of
         Inl error \<Rightarrow> Inl error
       | Inr subnets \<Rightarrow> Inr (index0 (ids subnets))),
      calls @ [GetSubnets (vpcFilters vpcId)])
   \<and> ((fst (sftpInstance_subnetId_index aws vpcId calls) = Inr (Some subnetId) \<and>
        fst (sftpInstance_subnetId aws vpcId calls) = Inr (Some subnetId)) \<longleftrightarrow>
       (\<exists>subnets result.
          getSubnets aws (vpcFilters vpcId) = Inr subnets \<and> index0 (ids subnets) = Some subnetId \<and>
          fst (publicSubnets aws vpcId calls) = Inr result \<and> subnetId \<in> set result))
   \<and> fst (sftpInstance_subnetId_index exampleVpc ''vpc-1'' []) = Inr (Some ''c'')
   \<and> fst (sftpInstance_subnetId exampleVpc ''vpc-1'' []) = Inr (Some ''a'')"
proof -
  have 1: "sftpInstance_subnetId_index aws vpcId calls =
     ((case getSubnets aws (vpcFilters vpcId) of
         Inl error \<Rightarrow> Inl error
       | Inr subnets \<Rightarrow> Inr (index0 (ids subnets))),
      calls @ [GetSubnets (vpcFilters vpcId)])"
    by (simp add: sftpInstance_subnetId_index_def publicSubnets_index_def awsGetSubnets_def
        split: sum.splits)
  have idx: "fst (sftpInstance_subnetId_index aws vpcId calls) = Inr (Some subnetId) \<longleftrightarrow>
      (\<exists>subnets. getSubnets aws (vpcFilters vpcId) = Inr subnets \<and> index0 (ids subnets) = Some subnetId)"
    by (auto simp: 1 split: sum.splits)
  have cls: "fst (sftpInstance_subnetId aws vpcId calls) = Inr (Some subnetId) \<longleftrightarrow>
      (\<exists>result. fst (publicSubnets aws vpcId calls) = Inr result \<and> index0 result = Some subnetId)"
    by (auto simp: sftpInstance_subnetId_def split: prod.splits sum.splits)
  have head: "index0 result = Some subnetId \<longleftrightarrow> subnetId \<in> set result"
    if enum: "getSubnets aws (vpcFilters vpcId) = Inr subnets"
      and first: "index0 (ids subnets) = Some subnetId"
      and res: "fst (publicSubnets aws vpcId calls) = Inr result"
    for subnets result
  proof -
    from first obtain rest where ids: "ids subnets = subnetId # rest"
      by (auto simp: index0_Some_iff)
    from res enum have
      "fst (forSubnetIds aws vpcId (ids subnets) [] (calls @ [GetSubnets (vpcFilters vpcId)])) = Inr result"
      by (simp add: publicSubnets_fst)
    then have result: "result = filter (\<lambda>s. classifySubnet aws vpcId s = Inr True) (ids subnets)"
      by (simp add: forSubnetIds_Inr_iff)
    show ?thesis
    proof
      assume "index0 result = Some subnetId"
      then show "subnetId \<in> set result" by (auto simp: index0_Some_iff)
    next
      assume "subnetId \<in> set result"
      with result have "classifySubnet aws vpcId subnetId = Inr True" by simp
      with result ids show "index0 result = Some subnetId" by simp
    qed
  qed
  have 2: "(fst (sftpInstance_subnetId_index aws vpcId calls) = Inr (Some subnetId) \<and>
        fst (sftpInstance_subnetId aws vpcId calls) = Inr (Some subnetId)) \<longleftrightarrow>
       (\<exists>subnets result.
          getSubnets aws (vpcFilters vpcId) = Inr subnets \<and> index0 (ids subnets) = Some subnetId \<and>
          fst (publicSubnets aws vpcId calls) = Inr result \<and> subnetId \<in> set result)"
    unfolding idx cls using head by blast
  have 3: "fst (sftpInstance_subnetId_index exampleVpc ''vpc-1'' []) = Inr (Some ''c'')"
    by (simp add: example_defs run_defs)
  have 4: "fst (sftpInstance_subnetId exampleVpc ''vpc-1'' []) = Inr (Some ''a'')"
    by (simp add: example_defs run_defs)
  from 1 2 3 4 show ?thesis by blast
qed

theorem index_variant_skips_classification_witness:
  "sftpInstance_subnetId_index publicFirstVpc ''vpc-1'' [] =
     (Inr (Some ''a''), [GetSubnets (vpcFilters ''vpc-1'')])
   \<and> fst (sftpInstance_subnetId publicFirstVpc ''vpc-1'' []) = Inr (Some ''a'')
   \<and> getSubnets publicFirstVpc (vpcFilters ''vpc-1'') = Inr \<lparr>ids = [''a'', ''c'']\<rparr>
   \<and> fst (publicSubnets publicFirstVpc ''vpc-1'' []) = Inr [''a'']"
proof -
  have g: "getSubnets publicFirstVpc (vpcFilters ''vpc-1'') = Inr \<lparr>ids = [''a'', ''c'']\<rparr>"
    by (simp add: example_defs)
  have p: "fst (publicSubnets publicFirstVpc ''vpc-1'' []) = Inr [''a'']"
    by (simp add: example_defs run_defs)
  note t = index_variant_skips_classification[of publicFirstVpc "''vpc-1''" "[]" "''a''"]
  from t g have a: "sftpInstance_subnetId_index publicFirstVpc ''vpc-1'' [] =
     (Inr (Some ''a''), [GetSubnets (vpcFilters ''vpc-1'')])"
    by simp
  have "\<exists>subnets result.
          getSubnets publicFirstVpc (vpcFilters ''vpc-1'') = Inr subnets \<and> index0 (ids subnets) = Some ''a'' \<and>
          fst (publicSubnets publicFirstVpc ''vpc-1'' []) = Inr result \<and> ''a'' \<in> set result"
    using g p by simp
  with t have b: "fst (sftpInstance_subnetId publicFirstVpc ''vpc-1'' []) = Inr (Some ''a'')"
    by blast
  from a b g p show ?thesis by blast
qed

text \<open>
  C8. The fallback is narrower than "not found". For a lookup that the run reaches: the
  second lookup is made only when the thrown value is an \<^verbatim>\<open>Error\<close> whose message contains
  the marker \<^verbatim>\<open>query returned no results\<close>, and any other thrown value is thrown by the
  call; in particular a value that is not an \<^verbatim>\<open>Error\<close> is thrown by the call, with no
  fallback lookup, whatever its text; and a value thrown by the main-table lookup of the
  fallback is thrown by the call, also when it is itself a "not found".
\<close>

theorem fallback_trigger_is_narrow:
  assumes enum: "getSubnets aws (vpcFilters vpcId) = Inr subnets"
    and split: "ids subnets = pre @ subnetId # post"
    and reach: "\<forall>t\<in>set pre. \<exists>b. classifySubnet aws vpcId t = Inr b"
  shows "(getRouteTable aws (subnetAssociationFilters subnetId) = Inl thrownValue \<longrightarrow>
            snd (loopBody aws vpcId subnetId publicSubnetIds calls) =
              calls @ GetRouteTable (subnetAssociationFilters subnetId) #
                (if \<exists>message before after. thrownValue = ErrorInstance message \<and>
                      message = before @ ''query returned no results'' @ after
                 then [GetRouteTable (mainAssociationFilters vpcId)] else []) \<and>
            (\<not> (\<exists>message before after. thrownValue = ErrorInstance message \<and>
                  message = before @ ''query returned no results'' @ after) \<longrightarrow>
               fst (publicSubnets aws vpcId calls) = Inl thrownValue))
         \<and> (getRouteTable aws (subnetAssociationFilters subnetId) = Inl (NonError thrownText) \<longrightarrow>
            fst (publicSubnets aws vpcId calls) = Inl (NonError thrownText) \<and>
            snd (loopBody aws vpcId subnetId publicSubnetIds calls) =
              calls @ [GetRouteTable (subnetAssociationFilters subnetId)])
         \<and> (getRouteTable aws (subnetAssociationFilters subnetId) = Inl error \<and>
            noExplicitRouteTable error \<and>
            getRouteTable aws (mainAssociationFilters vpcId) = Inl mainError \<longrightarrow>
            fst (publicSubnets aws vpcId calls) = Inl mainError)
         \<and> (getRouteTable aws (subnetAssociationFilters subnetId) =
              Inl (ErrorInstance (before' @ ''query returned no results'' @ after')) \<and>
            getRouteTable aws (mainAssociationFilters vpcId) = Inl mainError \<longrightarrow>
            fst (publicSubnets aws vpcId calls) = Inl mainError)"
proof -
  have 0: "snd (loopBody aws vpcId subnetId publicSubnetIds calls) =
              calls @ GetRouteTable (subnetAssociationFilters subnetId) #
                (if \<exists>message before after. thrownValue = ErrorInstance message \<and>
                      message = before @ ''query returned no results'' @ after
                 then [GetRouteTable (mainAssociationFilters vpcId)] else [])"
    if t: "getRouteTable aws (subnetAssociationFilters subnetId) = Inl thrownValue"
    using loopBody_thrown_calls[OF t, of vpcId publicSubnetIds calls]
    by (simp only: noExplicitRouteTable_iff)
  have 00: "fst (publicSubnets aws vpcId calls) = Inl thrownValue"
    if t: "getRouteTable aws (subnetAssociationFilters subnetId) = Inl thrownValue"
      and n: "\<not> (\<exists>message before after. thrownValue = ErrorInstance message \<and>
                  message = before @ ''query returned no results'' @ after)"
  proof -
    from n have "\<not> noExplicitRouteTable thrownValue"
      by (simp only: noExplicitRouteTable_iff not_False_eq_True)
    with t have "classifySubnet aws vpcId subnetId = Inl thrownValue"
      by (simp add: classifySubnet_eq)
    with enum split reach show ?thesis by (rule publicSubnets_first_failure)
  qed
  have 1: "fst (publicSubnets aws vpcId calls) = Inl (NonError thrownText)"
    if t: "getRouteTable aws (subnetAssociationFilters subnetId) = Inl (NonError thrownText)"
  proof -
    from t have "classifySubnet aws vpcId subnetId = Inl (NonError thrownText)"
      by (simp add: classifySubnet_eq)
    with enum split reach show ?thesis by (rule publicSubnets_first_failure)
  qed
  have 2: "snd (loopBody aws vpcId subnetId publicSubnetIds calls) =
              calls @ [GetRouteTable (subnetAssociationFilters subnetId)]"
    if t: "getRouteTable aws (subnetAssociationFilters subnetId) = Inl (NonError thrownText)"
    using t by (simp add: loopBody_def awsGetRouteTable_def)
  have 3: "fst (publicSubnets aws vpcId calls) = Inl mainError"
    if t: "getRouteTable aws (subnetAssociationFilters subnetId) = Inl error"
      and n: "noExplicitRouteTable error"
      and m: "getRouteTable aws (mainAssociationFilters vpcId) = Inl mainError"
    for error
  proof -
    from t n m have "classifySubnet aws vpcId subnetId = Inl mainError"
      by (simp add: classifySubnet_eq)
    with enum split reach show ?thesis by (rule publicSubnets_first_failure)
  qed
  have 4: "fst (publicSubnets aws vpcId calls) = Inl mainError"
    if t: "getRouteTable aws (subnetAssociationFilters subnetId) =
              Inl (ErrorInstance (before' @ ''query returned no results'' @ after'))"
      and m: "getRouteTable aws (mainAssociationFilters vpcId) = Inl mainError"
  proof -
    have n: "noExplicitRouteTable (ErrorInstance (before' @ ''query returned no results'' @ after'))"
      unfolding noExplicitRouteTable_iff by blast
    from t n m show ?thesis by (rule 3)
  qed
  from 0 00 1 2 3 4 show ?thesis by blast
qed

theorem fallback_trigger_is_narrow_witness:
  "getSubnets nonErrorVpc (vpcFilters ''vpc-1'') = Inr \<lparr>ids = [''b'']\<rparr>
   \<and> getRouteTable nonErrorVpc (subnetAssociationFilters ''b'') = Inl (NonError ''query returned no results'')
   \<and> string_includes ''query returned no results'' ''query returned no results''
   \<and> fst (publicSubnets nonErrorVpc ''vpc-1'' []) = Inl (NonError ''query returned no results'')
   \<and> getSubnets noMainVpc (vpcFilters ''vpc-1'') = Inr \<lparr>ids = [''b'']\<rparr>
   \<and> getRouteTable noMainVpc (subnetAssociationFilters ''b'') = Inl noResultsError
   \<and> getRouteTable noMainVpc (mainAssociationFilters ''vpc-1'') = Inl noResultsError
   \<and> noExplicitRouteTable noResultsError
   \<and> fst (publicSubnets noMainVpc ''vpc-1'' []) = Inl noResultsError
   \<and> getSubnets deniedVpc (vpcFilters ''vpc-1'') = Inr \<lparr>ids = [''a'', ''b'']\<rparr>
   \<and> classifySubnet deniedVpc ''vpc-1'' ''a'' = Inr True
   \<and> getRouteTable deniedVpc (subnetAssociationFilters ''b'') = Inl (ErrorInstance ''AccessDenied'')
   \<and> snd (loopBody deniedVpc ''vpc-1'' ''b'' [''a''] []) = [GetRouteTable (subnetAssociationFilters ''b'')]
   \<and> fst (publicSubnets deniedVpc ''vpc-1'' []) = Inl (ErrorInstance ''AccessDenied'')"
proof -
  have s: "ids \<lparr>ids = [''b'']\<rparr> = [] @ ''b'' # []" by simp
  have h1: "getSubnets nonErrorVpc (vpcFilters ''vpc-1'') = Inr \<lparr>ids = [''b'']\<rparr>"
    by (simp add: example_defs)
  have r1: "\<forall>t\<in>set []. \<exists>b. classifySubnet nonErrorVpc ''vpc-1'' t = Inr b" by simp
  have l1: "getRouteTable nonErrorVpc (subnetAssociationFilters ''b'') = Inl (NonError ''query returned no results'')"
    by (simp add: example_defs)
  have i: "string_includes ''query returned no results'' ''query returned no results''"
    by (simp add: startsWith_def)
  from fallback_trigger_is_narrow[OF h1 s r1, where thrownText = "''query returned no results''"
      and calls = "[]"] l1
  have a: "fst (publicSubnets nonErrorVpc ''vpc-1'' []) = Inl (NonError ''query returned no results'')"
    by blast
  have h2: "getSubnets noMainVpc (vpcFilters ''vpc-1'') = Inr \<lparr>ids = [''b'']\<rparr>"
    by (simp add: example_defs)
  have r2: "\<forall>t\<in>set []. \<exists>b. classifySubnet noMainVpc ''vpc-1'' t = Inr b" by simp
  have l2: "getRouteTable noMainVpc (subnetAssociationFilters ''b'') = Inl noResultsError"
    by (simp add: example_defs)
  have m2: "getRouteTable noMainVpc (mainAssociationFilters ''vpc-1'') = Inl noResultsError"
    by (simp add: example_defs)
  have n: "noExplicitRouteTable noResultsError"
    by (simp add: noResultsError_def startsWith_def)
  from fallback_trigger_is_narrow[OF h2 s r2, where error = noResultsError
      and mainError = noResultsError and calls = "[]"] l2 m2 n
  have b: "fst (publicSubnets noMainVpc ''vpc-1'' []) = Inl noResultsError"
    by blast
  have h3: "getSubnets deniedVpc (vpcFilters ''vpc-1'') = Inr \<lparr>ids = [''a'', ''b'']\<rparr>"
    by (simp add: example_defs)
  have s3: "ids \<lparr>ids = [''a'', ''b'']\<rparr> = [''a''] @ ''b'' # []" by simp
  have ca: "classifySubnet deniedVpc ''vpc-1'' ''a'' = Inr True"
    by (simp add: classifySubnet_eq example_defs routesToInternetGateway_def startsWith_def)
  then have r3: "\<forall>t\<in>set [''a'']. \<exists>b. classifySubnet deniedVpc ''vpc-1'' t = Inr b" by auto
  have l3: "getRouteTable deniedVpc (subnetAssociationFilters ''b'') = Inl (ErrorInstance ''AccessDenied'')"
    by (simp add: example_defs)
  have "\<not> noExplicitRouteTable (ErrorInstance ''AccessDenied'')"
    by (simp add: startsWith_def)
  then have n3: "\<not> (\<exists>message before after. ErrorInstance ''AccessDenied'' = ErrorInstance message \<and>
                  message = before @ ''query returned no results'' @ after)"
    by (simp only: noExplicitRouteTable_iff not_False_eq_True)
  note t3 = fallback_trigger_is_narrow[OF h3 s3 r3, where thrownValue = "ErrorInstance ''AccessDenied''"
      and calls = "[]" and publicSubnetIds = "[''a'']"]
  from t3 l3 n3 have c: "snd (loopBody deniedVpc ''vpc-1'' ''b'' [''a''] []) =
      [GetRouteTable (subnetAssociationFilters ''b'')]"
    by (simp only: if_False append_Nil simp_thms)
  from t3 l3 n3 have d: "fst (publicSubnets deniedVpc ''vpc-1'' []) = Inl (ErrorInstance ''AccessDenied'')"
    by blast
  from h1 l1 i a h2 l2 m2 n b h3 ca l3 c d show ?thesis by blast
qed

text \<open>
  C9. Classification is a deterministic function of the inventory snapshot: the result
  does not depend on the queries made before the invocation, an invocation only appends
  its own read-only queries to that history, and a second invocation that follows a first
  one on the same inventory returns the same result. Nothing but the history of queries is
  handed from one invocation to the next, and \<^verbatim>\<open>publicSubnetIds\<close> starts empty in each.
\<close>

theorem classification_is_deterministic:
  "fst (publicSubnets aws vpcId calls) = fst (publicSubnets aws vpcId calls')
   \<and> snd (publicSubnets aws vpcId calls) = calls @ snd (publicSubnets aws vpcId [])
   \<and> fst (publicSubnets aws vpcId (snd (publicSubnets aws vpcId calls))) =
       fst (publicSubnets aws vpcId calls)"
proof -
  have ind: "fst (publicSubnets aws vpcId c) = fst (publicSubnets aws vpcId [])" for c
    using publicSubnets_calls[of aws vpcId c] by simp
  have 1: "fst (publicSubnets aws vpcId calls) = fst (publicSubnets aws vpcId calls')"
    using ind[of calls] ind[of calls'] by simp
  have 2: "snd (publicSubnets aws vpcId calls) = calls @ snd (publicSubnets aws vpcId [])"
    using publicSubnets_calls[of aws vpcId calls] by simp
  have 3: "fst (publicSubnets aws vpcId (snd (publicSubnets aws vpcId calls))) =
       fst (publicSubnets aws vpcId calls)"
    using ind[of calls] ind[of "snd (publicSubnets aws vpcId calls)"] by simp
  from 1 2 3 show ?thesis by blast
qed

theorem classification_is_deterministic_witness:
  "fst (publicSubnets exampleVpc ''vpc-1'' [GetSubnets []]) = Inr [''a'', ''b'']
   \<and> fst (publicSubnets exampleVpc ''vpc-1''
             (snd (publicSubnets exampleVpc ''vpc-1'' [GetSubnets []]))) = Inr [''a'', ''b'']"
proof -
  have r: "fst (publicSubnets exampleVpc ''vpc-1'' []) = Inr [''a'', ''b'']"
    by (simp add: example_defs run_defs)
  show ?thesis
    using classification_is_deterministic[of exampleVpc "''vpc-1''" "[GetSubnets []]" "[]"] r
    by metis
qed

text \<open>
  C10. When the enumeration of the VPC's subnets is empty, classification returns the
  empty sequence, and the only query it makes is the enumeration itself: no route table
  is looked up.
\<close>

theorem empty_enumeration_makes_no_lookup:
  assumes "getSubnets aws (vpcFilters vpcId) = Inr subnets" and "ids subnets = []"
  shows "publicSubnets aws vpcId calls = (Inr [], calls @ [GetSubnets (vpcFilters vpcId)])"
  using assms by (simp add: publicSubnets_def awsGetSubnets_def)

theorem empty_enumeration_makes_no_lookup_witness:
  "getSubnets emptyVpc (vpcFilters ''vpc-1'') = Inr \<lparr>ids = []\<rparr> \<and>
   publicSubnets emptyVpc ''vpc-1'' [] = (Inr [], [GetSubnets (vpcFilters ''vpc-1'')])"
proof -
  have h: "getSubnets emptyVpc (vpcFilters ''vpc-1'') = Inr \<lparr>ids = []\<rparr>"
    by (simp add: example_defs)
  have e: "ids \<lparr>ids = []\<rparr> = []" by simp
  show ?thesis
    using h empty_enumeration_makes_no_lookup[OF h e, of "[]"] by simp
qed

end
